theory Spec2Isabelle
  imports Complex_Main
begin

section \<open>Exceptions and outcomes\<close>

text \<open>
  The notebook is Python: a call either returns or raises, and an exception raised inside a
  cell leaves the notebook's global variables as they were at that moment. An exception that
  comes out of a scikit-learn call carries the library's own error value; the built-in
  exceptions are the ones the notebook's own expressions and pandas can raise.
\<close>

datatype py_error = ValueError | ZeroDivisionError | AttributeError

datatype 'e exn = LibraryError 'e | PythonError py_error

datatype 'e outcome = Normal | Raised "'e exn"

section \<open>The collaborators of the sweep\<close>

type_synonym matrix = "real list list"
type_synonym vector = "real list"

text \<open>
  The features, the targets and the predictions are numbers, taken exactly. A metric is a
  Python float that may also be not-a-number; a comparison with not-a-number is false.
\<close>

datatype pyfloat = Num real | NaN

fun float_le :: "pyfloat \<Rightarrow> pyfloat \<Rightarrow> bool" where
  "float_le (Num a) (Num b) = (a \<le> b)"
| "float_le NaN y = False"
| "float_le (Num a) NaN = False"

text \<open>
  The model trainer and the scorer are scikit-learn's; the notebook only calls them. They are
  parameters of the model: any functions of these types. \<open>'m\<close> is the type of model
  objects, \<open>'e\<close> the type of the library's errors, and \<open>'g\<close> the state of the random number
  generator that an unseeded \<open>RandomForestRegressor\<close> draws from while fitting.
\<close>

record ('m, 'g, 'e) sklearn =
  RandomForestRegressor :: "int \<Rightarrow> int \<Rightarrow> 'e + 'm"
  fit :: "'m \<Rightarrow> matrix \<Rightarrow> vector \<Rightarrow> 'g \<Rightarrow> 'e + ('m \<times> 'g)"
  predict :: "'m \<Rightarrow> matrix \<Rightarrow> 'e + vector"
  mean_squared_error :: "vector \<Rightarrow> vector \<Rightarrow> 'e + pyfloat"
  r2_score :: "vector \<Rightarrow> vector \<Rightarrow> 'e + pyfloat"

text \<open>The four arrays of cell 40 and cell 43 that the sweep reads.\<close>

record dataset =
  x_train_scaled :: matrix
  y_train :: vector
  x_test_scaled :: matrix
  y_test :: vector

section \<open>The hyperparameter sweep (cell 57)\<close>

text \<open>
  The global variables the loop writes: the four result lists, and the generator state.
  \<open>fitted\<close> is a log of the calls of \<open>tuned_rf_model.fit\<close> that returned, in order; it
  records the effect "a model has been fit" and is read by no code.
\<close>

record 'g globals =
  tree_count :: "int list"
  tree_depth :: "int list"
  tuned_rf_MSE :: "pyfloat list"
  tuned_rf_R2 :: "pyfloat list"
  fitted :: "(int \<times> int) list"
  rng :: 'g

definition trees_57 :: "int list" where
  "trees_57 = [50, 100, 300, 500, 1000]"

definition depths_57 :: "int list" where
  "depths_57 = [1, 3, 5, 7, 9, 11]"

definition init_57 :: "'g \<Rightarrow> 'g globals" where
  "init_57 g = \<lparr>tree_count = [], tree_depth = [], tuned_rf_MSE = [], tuned_rf_R2 = [],
                fitted = [], rng = g\<rparr>"

text \<open>
  The body of the inner loop, statement by statement. The two hyperparameter appends come
  before the two scorer calls, as in the source, so an exception of a scorer leaves the
  lists with different lengths. A call of \<open>fit\<close> that raises is taken to leave the
  generator state as it was.
\<close>

definition body ::
  "('m, 'g, 'e) sklearn \<Rightarrow> dataset \<Rightarrow> int \<Rightarrow> int \<Rightarrow> 'g globals \<Rightarrow> 'e outcome \<times> 'g globals" where
  "body L D tree depth s =
     (case RandomForestRegressor L tree depth of
        Inl e \<Rightarrow> (Raised (LibraryError e), s)
      | Inr tuned_rf_model \<Rightarrow>
          (case fit L tuned_rf_model (x_train_scaled D) (y_train D) (rng s) of
             Inl e \<Rightarrow> (Raised (LibraryError e), s)
           | Inr (fitted_model, g') \<Rightarrow>
               (let s1 = s\<lparr>fitted := fitted s @ [(tree, depth)], rng := g'\<rparr> in
                case predict L fitted_model (x_test_scaled D) of
                  Inl e \<Rightarrow> (Raised (LibraryError e), s1)
                | Inr y_pred_tuned_rf \<Rightarrow>
                    (let s2 = s1\<lparr>tree_count := tree_count s1 @ [tree]\<rparr>;
                         s3 = s2\<lparr>tree_depth := tree_depth s2 @ [depth]\<rparr> in
                     case mean_squared_error L (y_test D) y_pred_tuned_rf of
                       Inl e \<Rightarrow> (Raised (LibraryError e), s3)
                     | Inr a \<Rightarrow>
                         (let s4 = s3\<lparr>tuned_rf_MSE := tuned_rf_MSE s3 @ [a]\<rparr> in
                          case r2_score L (y_test D) y_pred_tuned_rf of
                            Inl e \<Rightarrow> (Raised (LibraryError e), s4)
                          | Inr b \<Rightarrow>
                              (Normal, s4\<lparr>tuned_rf_R2 := tuned_rf_R2 s4 @ [b]\<rparr>))))))"

fun inner_loop ::
  "('m, 'g, 'e) sklearn \<Rightarrow> dataset \<Rightarrow> int \<Rightarrow> int list \<Rightarrow> 'g globals \<Rightarrow> 'e outcome \<times> 'g globals" where
  "inner_loop L D tree [] s = (Normal, s)"
| "inner_loop L D tree (depth # depths) s =
     (case body L D tree depth s of
        (Normal, s') \<Rightarrow> inner_loop L D tree depths s'
      | (Raised e, s') \<Rightarrow> (Raised e, s'))"

fun outer_loop ::
  "('m, 'g, 'e) sklearn \<Rightarrow> dataset \<Rightarrow> int list \<Rightarrow> int list \<Rightarrow> 'g globals \<Rightarrow> 'e outcome \<times> 'g globals" where
  "outer_loop L D [] depths s = (Normal, s)"
| "outer_loop L D (tree # trees) depths s =
     (case inner_loop L D tree depths s of
        (Normal, s') \<Rightarrow> outer_loop L D trees depths s'
      | (Raised e, s') \<Rightarrow> (Raised e, s'))"

text \<open>
  \<open>pd.DataFrame\<close> of a dictionary of four lists: one row per index, and a \<open>ValueError\<close>
  when the lists do not all have the same length.
\<close>

record results_row =
  Number_of_trees :: int
  Max_depth :: int
  MSE :: pyfloat
  R2 :: pyfloat

definition DataFrame ::
  "int list \<Rightarrow> int list \<Rightarrow> pyfloat list \<Rightarrow> pyfloat list \<Rightarrow> py_error + results_row list" where
  "DataFrame ts ds ms rs =
     (if length ds = length ts \<and> length ms = length ts \<and> length rs = length ts
      then Inr (map (\<lambda>i. \<lparr>Number_of_trees = ts ! i, Max_depth = ds ! i,
                           MSE = ms ! i, R2 = rs ! i\<rparr>) [0..<length ts])
      else Inl ValueError)"

text \<open>
  The whole cell: the outcome, the globals it leaves, and \<open>results_df\<close> when the cell got
  as far as building it.
\<close>

definition cell_57 ::
  "('m, 'g, 'e) sklearn \<Rightarrow> dataset \<Rightarrow> int list \<Rightarrow> int list \<Rightarrow> 'g
     \<Rightarrow> 'e outcome \<times> 'g globals \<times> results_row list option" where
  "cell_57 L D trees depths g =
     (case outer_loop L D trees depths (init_57 g) of
        (Raised e, s) \<Rightarrow> (Raised e, s, None)
      | (Normal, s) \<Rightarrow>
          (case DataFrame (tree_count s) (tree_depth s) (tuned_rf_MSE s) (tuned_rf_R2 s) of
             Inl e \<Rightarrow> (Raised (PythonError e), s, None)
           | Inr results_df \<Rightarrow> (Normal, s, Some results_df)))"

section \<open>The grid as the specification describes it\<close>

text \<open>
  Row-major order of the Cartesian product: tree counts outside, depths inside.
\<close>

definition row_major :: "int list \<Rightarrow> int list \<Rightarrow> (int \<times> int) list" where
  "row_major trees depths = concat (map (\<lambda>t. map (\<lambda>d. (t, d)) depths) trees)"

text \<open>One loop over a list of grid cells, stopping at the first exception.\<close>

fun run_cells ::
  "('m, 'g, 'e) sklearn \<Rightarrow> dataset \<Rightarrow> (int \<times> int) list \<Rightarrow> 'g globals \<Rightarrow> 'e outcome \<times> 'g globals" where
  "run_cells L D [] s = (Normal, s)"
| "run_cells L D (c # cs) s =
     (case body L D (fst c) (snd c) s of
        (Normal, s') \<Rightarrow> run_cells L D cs s'
      | (Raised e, s') \<Rightarrow> (Raised e, s'))"

text \<open>
  The trainer and the scorer accept a grid cell on a dataset when the body of the loop
  completes for it, whatever the generator state.
\<close>

definition accepts :: "('m, 'g, 'e) sklearn \<Rightarrow> dataset \<Rightarrow> int \<Rightarrow> int \<Rightarrow> bool" where
  "accepts L D tree depth \<longleftrightarrow> (\<forall>s. fst (body L D tree depth s) = Normal)"

text \<open>
  The invariant of the loop: each of the four result lists has \<open>n\<close> entries.
\<close>

definition lengths_are :: "nat \<Rightarrow> 'g globals \<Rightarrow> bool" where
  "lengths_are n s \<longleftrightarrow>
     length (tree_count s) = n \<and> length (tree_depth s) = n \<and>
     length (tuned_rf_MSE s) = n \<and> length (tuned_rf_R2 s) = n"

section \<open>The scorer\<close>

text \<open>
  Modelled from the spec: \<open>mean_squared_error\<close> is scikit-learn's and is not part of the
  notebook. The spec calls it the mean squared error between the ground truth and the
  predictions over the test partition: the mean of the squared differences. The library
  raises for an empty vector and for vectors of different lengths.
\<close>

definition squared_errors :: "vector \<Rightarrow> vector \<Rightarrow> real" where
  "squared_errors y_true y_pred = sum_list (map (\<lambda>(a, b). (a - b)\<^sup>2) (zip y_true y_pred))"

definition mse :: "vector \<Rightarrow> vector \<Rightarrow> pyfloat option" where
  "mse y_true y_pred =
     (if y_true = [] \<or> length y_true \<noteq> length y_pred then None
      else Some (Num (squared_errors y_true y_pred / real (length y_true))))"

text \<open>
  Modelled from the spec: \<open>r2_score\<close> is scikit-learn's and is not part of the notebook.
  The spec calls it the coefficient of determination over the test partition: one minus the
  residual sum of squares over the total sum of squares around the mean of the ground
  truth. The spec gives no value where that quotient does not exist; there the definition
  takes what the library documents. With fewer than two samples the score is not defined
  and the library returns not-a-number, with a warning and no exception. With two or more
  samples and a zero total sum of squares it returns 1 for a perfect prediction and 0
  otherwise. Like \<open>mean_squared_error\<close> it raises for an empty vector and for vectors of
  different lengths.
\<close>

definition r2 :: "vector \<Rightarrow> vector \<Rightarrow> pyfloat option" where
  "r2 y_true y_pred =
     (if y_true = [] \<or> length y_true \<noteq> length y_pred then None
      else if length y_pred < 2 then Some NaN
      else
        (let mean = sum_list y_true / real (length y_true);
             ss_res = squared_errors y_true y_pred;
             ss_tot = sum_list (map (\<lambda>a. (a - mean)\<^sup>2) y_true)
         in if ss_tot = 0 then (if ss_res = 0 then Some (Num 1) else Some (Num 0))
            else Some (Num (1 - ss_res / ss_tot))))"

text \<open>The two ranges of the metric lists: no error below 0, no score above 1.\<close>

definition errors_in_range :: "'g globals \<Rightarrow> bool" where
  "errors_in_range s \<longleftrightarrow> list_all (\<lambda>a. float_le (Num 0) a) (tuned_rf_MSE s)"

definition scores_in_range :: "'g globals \<Rightarrow> bool" where
  "scores_in_range s \<longleftrightarrow> list_all (\<lambda>b. float_le b (Num 1)) (tuned_rf_R2 s)"

section \<open>A small trainer with the library's interface\<close>

text \<open>
  To run the sweep on concrete inputs the parameters need values. This trainer is a forest
  whose every tree predicts the mean of the training targets. It checks what scikit-learn
  checks, where scikit-learn checks it: the constructor only stores the hyperparameters,
  \<open>fit\<close> rejects a tree count or a depth below 1 and remembers the number of feature
  columns, and \<open>predict\<close> rejects a matrix with another number of columns. Its generator
  state is a counter of the trees grown so far.
\<close>

datatype sk_error = InvalidParameterError | NotFittedError | FeatureCountError | SampleCountError

record forest =
  n_estimators :: int
  max_depth :: int
  n_features_in :: "nat option"
  leaf_value :: real

definition mf_new :: "int \<Rightarrow> int \<Rightarrow> sk_error + forest" where
  "mf_new tree depth =
     Inr \<lparr>n_estimators = tree, max_depth = depth, n_features_in = None, leaf_value = 0\<rparr>"

definition mf_fit :: "forest \<Rightarrow> matrix \<Rightarrow> vector \<Rightarrow> nat \<Rightarrow> sk_error + (forest \<times> nat)" where
  "mf_fit m X y g =
     (if n_estimators m < 1 \<or> max_depth m < 1 then Inl InvalidParameterError
      else if X = [] \<or> length X \<noteq> length y then Inl SampleCountError
      else Inr (m\<lparr>n_features_in := Some (length (hd X)),
                  leaf_value := sum_list y / real (length y)\<rparr>,
                g + nat (n_estimators m)))"

definition mf_predict :: "forest \<Rightarrow> matrix \<Rightarrow> sk_error + vector" where
  "mf_predict m X =
     (case n_features_in m of
        None \<Rightarrow> Inl NotFittedError
      | Some k \<Rightarrow>
          if X = [] then Inl SampleCountError
          else if list_all (\<lambda>row. length row = k) X then Inr (map (\<lambda>row. leaf_value m) X)
          else Inl FeatureCountError)"

definition mf_score :: "pyfloat option \<Rightarrow> sk_error + pyfloat" where
  "mf_score v = (case v of None \<Rightarrow> Inl SampleCountError | Some x \<Rightarrow> Inr x)"

definition mean_forest :: "(forest, nat, sk_error) sklearn" where
  "mean_forest =
     \<lparr>RandomForestRegressor = mf_new, fit = mf_fit, predict = mf_predict,
      mean_squared_error = (\<lambda>y_true y_pred. mf_score (mse y_true y_pred)),
      r2_score = (\<lambda>y_true y_pred. mf_score (r2 y_true y_pred))\<rparr>"

text \<open>Two rows to train on and two to test on, three feature columns each.\<close>

definition data3 :: dataset where
  "data3 = \<lparr>x_train_scaled = [[1, 0, -1], [-1, 0, 1]], y_train = [1, 3],
            x_test_scaled = [[0, 0, 0], [1, 1, 1]], y_test = [1, 4]\<rparr>"

text \<open>The same training rows, and test rows with a fourth feature column.\<close>

definition data34 :: dataset where
  "data34 = \<lparr>x_train_scaled = [[1, 0, -1], [-1, 0, 1]], y_train = [1, 3],
             x_test_scaled = [[0, 0, 0, 0], [1, 1, 1, 1]], y_test = [1, 4]\<rparr>"

text \<open>The same training rows, and a single row to test on.\<close>

definition data1 :: dataset where
  "data1 = \<lparr>x_train_scaled = [[1, 0, -1], [-1, 0, 1]], y_train = [1, 3],
            x_test_scaled = [[0, 0, 0]], y_test = [1]\<rparr>"

section \<open>Molecules and the aromatic proportion (cells 21, 30 and 31)\<close>

text \<open>
  Of an RDKit molecule the notebook's own code reads two things: the atoms that are
  aromatic and the number of atoms. A molecule is its list of atoms, each with its
  aromaticity flag; \<open>GetAromaticAtoms\<close> selects the flagged atoms and \<open>GetNumAtoms\<close> counts
  all of them.
\<close>

record atom =
  symbol :: string
  IsAromatic :: bool

type_synonym Mol = "atom list"

definition GetAromaticAtoms :: "Mol \<Rightarrow> atom list" where
  "GetAromaticAtoms m = filter IsAromatic m"

definition GetNumAtoms :: "Mol \<Rightarrow> nat" where
  "GetNumAtoms m = length m"

text \<open>
  \<open>aromatic_calc\<close> of cell 30. Its argument is an entry of the \<open>mol\<close> column: a molecule,
  or \<open>None\<close> where the SMILES string did not parse. \<open>None\<close> has no method
  \<open>GetAromaticAtoms\<close>, and the division is Python's true division.
\<close>

definition aromatic_calc :: "Mol option \<Rightarrow> py_error + real" where
  "aromatic_calc mol =
     (case mol of
        None \<Rightarrow> Inl AttributeError
      | Some m \<Rightarrow>
          if GetNumAtoms m = 0 then Inl ZeroDivisionError
          else Inr (real (length (GetAromaticAtoms m)) / real (GetNumAtoms m)))"




text \<open>
  A parser for a handful of SMILES strings, to run the cells on concrete inputs: methane,
  propane, benzene, toluene and the empty string (a molecule without atoms). Every other
  string fails to parse.
\<close>

definition C_atom :: atom where
  "C_atom = \<lparr>symbol = ''C'', IsAromatic = False\<rparr>"

definition c_atom :: atom where
  "c_atom = \<lparr>symbol = ''C'', IsAromatic = True\<rparr>"

definition table_MolFromSmiles :: "string \<Rightarrow> Mol option" where
  "table_MolFromSmiles s =
     (if s = ''C'' then Some [C_atom]
      else if s = ''CCC'' then Some [C_atom, C_atom, C_atom]
      else if s = ''c1ccccc1'' then Some [c_atom, c_atom, c_atom, c_atom, c_atom, c_atom]
      else if s = ''Cc1ccccc1'' then
        Some [C_atom, c_atom, c_atom, c_atom, c_atom, c_atom, c_atom]
      else if s = [] then Some []
      else None)"

section \<open>Standardising the features (cell 43)\<close>

text \<open>
  Modelled from the spec: \<open>StandardScaler\<close> is scikit-learn's and is not part of the
  notebook. The spec describes a per-column standardisation: the scaling parameters are a
  mean and a standard deviation for each feature, fit on one partition, and applying them
  subtracts the mean and divides by the standard deviation. The standard deviation is the
  population one. The spec gives no value for a column whose standard deviation is zero;
  there the definition takes what the library documents, a scaling factor of 1, so that
  such a column is centred and not divided. A feature table is the list of its columns.
\<close>

type_synonym table = "vector list"

definition mean_of :: "vector \<Rightarrow> real" where
  "mean_of xs = sum_list xs / real (length xs)"

definition std_of :: "vector \<Rightarrow> real" where
  "std_of xs = sqrt (sum_list (map (\<lambda>x. (x - mean_of xs)\<^sup>2) xs) / real (length xs))"

text \<open>A column is constant when every entry equals the first.\<close>

definition is_constant :: "vector \<Rightarrow> bool" where
  "is_constant xs \<longleftrightarrow> list_all (\<lambda>x. x = hd xs) xs"

record scaling =
  col_mean :: real
  col_scale :: real

definition fit_column :: "vector \<Rightarrow> scaling" where
  "fit_column xs =
     \<lparr>col_mean = mean_of xs, col_scale = (if std_of xs = 0 then 1 else std_of xs)\<rparr>"

definition transform_column :: "scaling \<Rightarrow> vector \<Rightarrow> vector" where
  "transform_column p xs = map (\<lambda>x. (x - col_mean p) / col_scale p) xs"

text \<open>
  The scaler object holds the parameters once it is fit. The library raises a
  \<open>ValueError\<close> for a table without columns or without rows, for \<open>transform\<close> before any
  fit, and for a table with another number of columns than the one it was fit on.
\<close>

type_synonym scaler = "scaling list option"

definition no_samples :: "table \<Rightarrow> bool" where
  "no_samples X \<longleftrightarrow> X = [] \<or> list_ex (\<lambda>column. column = []) X"

definition fit_transform :: "scaler \<Rightarrow> table \<Rightarrow> py_error + (scaler \<times> table)" where
  "fit_transform sc X =
     (if no_samples X then Inl ValueError
      else (let p = map fit_column X in Inr (Some p, map2 transform_column p X)))"

definition transform :: "scaler \<Rightarrow> table \<Rightarrow> py_error + table" where
  "transform sc X =
     (case sc of
        None \<Rightarrow> Inl ValueError
      | Some p \<Rightarrow>
          if no_samples X then Inl ValueError
          else if length X = length p then Inr (map2 transform_column p X)
          else Inl ValueError)"

text \<open>
  Cell 43: a new scaler, \<open>fit_transform\<close> on the training features, \<open>transform\<close> on the test
  features. The result is the scaler the cell leaves and the two scaled tables.
\<close>

definition cell_43 :: "table \<Rightarrow> table \<Rightarrow> py_error + (scaler \<times> table \<times> table)" where
  "cell_43 x_train x_test =
     (case fit_transform None x_train of
        Inl e \<Rightarrow> Inl e
      | Inr (fitted_scaler, train_scaled) \<Rightarrow>
          (case transform fitted_scaler x_test of
             Inl e \<Rightarrow> Inl e
           | Inr test_scaled \<Rightarrow> Inr (fitted_scaler, train_scaled, test_scaled)))"

section \<open>The nested loops run the grid in row-major order\<close>

lemma run_cells_append:
  "run_cells L D (xs @ ys) s =
     (case run_cells L D xs s of
        (Normal, s') \<Rightarrow> run_cells L D ys s'
      | (Raised e, s') \<Rightarrow> (Raised e, s'))"
  by (induction xs arbitrary: s) (auto split: prod.splits outcome.splits)

lemma inner_loop_flat:
  "inner_loop L D tree depths s = run_cells L D (map (\<lambda>d. (tree, d)) depths) s"
  by (induction depths arbitrary: s) (auto split: prod.splits outcome.splits)

lemma outer_loop_flat:
  "outer_loop L D trees depths s = run_cells L D (row_major trees depths) s"
proof (induction trees arbitrary: s)
  case Nil
  show ?case by (simp add: row_major_def)
next
  case (Cons t ts)
  have "row_major (t # ts) depths = map (\<lambda>d. (t, d)) depths @ row_major ts depths"
    by (simp add: row_major_def)
  then show ?case
    using Cons.IH by (simp add: run_cells_append inner_loop_flat split: prod.splits outcome.splits)
qed

lemma length_row_major: "length (row_major trees depths) = length trees * length depths"
  by (induction trees) (simp_all add: row_major_def)


section \<open>What one iteration does\<close>

lemma body_Normal:
  assumes "body L D t d s = (Normal, s')"
  shows "tree_count s' = tree_count s @ [t]"
    and "tree_depth s' = tree_depth s @ [d]"
    and "\<exists>yp a. mean_squared_error L (y_test D) yp = Inr a \<and> tuned_rf_MSE s' = tuned_rf_MSE s @ [a]"
    and "\<exists>yp b. r2_score L (y_test D) yp = Inr b \<and> tuned_rf_R2 s' = tuned_rf_R2 s @ [b]"
    and "fitted s' = fitted s @ [(t, d)]"
  using assms by (auto simp: body_def Let_def split: sum.splits prod.splits)

lemma body_Raised:
  assumes "body L D t d s = (Raised e, s')"
  shows "\<exists>e'. e = LibraryError e'"
    and "fitted s' = fitted s \<or> fitted s' = fitted s @ [(t, d)]"
  using assms by (auto simp: body_def Let_def split: sum.splits prod.splits)

lemma body_rejected:
  assumes "RandomForestRegressor L t d = Inl e \<or>
           (\<exists>m. RandomForestRegressor L t d = Inr m \<and>
                fit L m (x_train_scaled D) (y_train D) (rng s) = Inl e)"
  shows "body L D t d s = (Raised (LibraryError e), s)"
  using assms by (auto simp: body_def)

lemma body_predict_fails:
  assumes "RandomForestRegressor L t d = Inr m"
    and "fit L m (x_train_scaled D) (y_train D) (rng s) = Inr (m', g')"
    and "predict L m' (x_test_scaled D) = Inl e"
  shows "body L D t d s = (Raised (LibraryError e), s\<lparr>fitted := fitted s @ [(t, d)], rng := g'\<rparr>)"
  using assms by (simp add: body_def)

lemma body_lengths:
  "body L D t d s = (Normal, s') \<Longrightarrow> lengths_are n s \<Longrightarrow> lengths_are (Suc n) s'"
  by (auto simp: lengths_are_def dest: body_Normal)

lemma run_cells_Normal:
  "run_cells L D cs s = (Normal, s') \<Longrightarrow>
     tree_count s' = tree_count s @ map fst cs \<and>
     tree_depth s' = tree_depth s @ map snd cs \<and>
     length (tuned_rf_MSE s') = length (tuned_rf_MSE s) + length cs \<and>
     length (tuned_rf_R2 s') = length (tuned_rf_R2 s) + length cs \<and>
     fitted s' = fitted s @ cs"
proof (induction cs arbitrary: s)
  case Nil
  then show ?case by simp
next
  case (Cons c cs)
  from Cons.prems obtain s1 where b: "body L D (fst c) (snd c) s = (Normal, s1)"
    and r: "run_cells L D cs s1 = (Normal, s')"
    by (auto split: prod.splits outcome.splits)
  from body_Normal[OF b] Cons.IH[OF r] show ?case by auto
qed

lemma run_cells_accepts:
  "\<forall>c\<in>set cs. accepts L D (fst c) (snd c) \<Longrightarrow> \<exists>s'. run_cells L D cs s = (Normal, s')"
proof (induction cs arbitrary: s)
  case Nil
  then show ?case by simp
next
  case (Cons c cs)
  from Cons.prems have "fst (body L D (fst c) (snd c) s) = Normal"
    by (simp add: accepts_def)
  then obtain s1 where b: "body L D (fst c) (snd c) s = (Normal, s1)"
    by (cases "body L D (fst c) (snd c) s") auto
  from Cons.IH[of s1] Cons.prems obtain s' where "run_cells L D cs s1 = (Normal, s')"
    by auto
  with b show ?case by simp
qed

lemma run_cells_first_failure:
  assumes "run_cells L D pre s = (Normal, s1)" and "body L D t d s1 = (Raised e, s2)"
  shows "run_cells L D (pre @ (t, d) # post) s = (Raised e, s2)"
  using assms by (simp add: run_cells_append)

lemma set_row_major: "set (row_major trees depths) = set trees \<times> set depths"
  by (auto simp: row_major_def)

section \<open>The result table\<close>

lemma DataFrame_equal_lengths:
  assumes "length ds = length ts" and "length ms = length ts" and "length rs = length ts"
  shows "\<exists>df. DataFrame ts ds ms rs = Inr df \<and> length df = length ts \<and>
           map (\<lambda>r. (Number_of_trees r, Max_depth r)) df = zip ts ds \<and>
           map MSE df = ms \<and> map R2 df = rs"
proof -
  let ?df = "map (\<lambda>i. \<lparr>Number_of_trees = ts ! i, Max_depth = ds ! i,
                         MSE = ms ! i, R2 = rs ! i\<rparr>) [0..<length ts]"
  have "DataFrame ts ds ms rs = Inr ?df"
    using assms by (simp add: DataFrame_def)
  moreover have "length ?df = length ts" by simp
  moreover have "map (\<lambda>r. (Number_of_trees r, Max_depth r)) ?df = zip ts ds"
    using assms by (intro nth_equalityI) simp_all
  moreover have "map MSE ?df = ms"
    using assms by (intro nth_equalityI) simp_all
  moreover have "map R2 ?df = rs"
    using assms by (intro nth_equalityI) simp_all
  ultimately show ?thesis by blast
qed

lemma outer_loop_table:
  assumes "outer_loop L D trees depths (init_57 g) = (Normal, s)"
  shows "\<exists>df. cell_57 L D trees depths g = (Normal, s, Some df) \<and>
           length df = length trees * length depths \<and>
           map (\<lambda>r. (Number_of_trees r, Max_depth r)) df = row_major trees depths \<and>
           map MSE df = tuned_rf_MSE s \<and> map R2 df = tuned_rf_R2 s"
proof -
  let ?cs = "row_major trees depths"
  from assms have r: "run_cells L D ?cs (init_57 g) = (Normal, s)"
    by (simp add: outer_loop_flat)
  from run_cells_Normal[OF r]
  have tc: "tree_count s = map fst ?cs" and td: "tree_depth s = map snd ?cs"
    and lm: "length (tuned_rf_MSE s) = length ?cs" and lr: "length (tuned_rf_R2 s) = length ?cs"
    by (simp_all add: init_57_def)
  have "length (tree_depth s) = length (tree_count s)"
    and "length (tuned_rf_MSE s) = length (tree_count s)"
    and "length (tuned_rf_R2 s) = length (tree_count s)"
    using tc td lm lr by simp_all
  from DataFrame_equal_lengths[OF this] obtain df
    where df: "DataFrame (tree_count s) (tree_depth s) (tuned_rf_MSE s) (tuned_rf_R2 s) = Inr df"
      and len: "length df = length (tree_count s)"
      and cols: "map (\<lambda>r. (Number_of_trees r, Max_depth r)) df = zip (tree_count s) (tree_depth s)"
      and ms: "map MSE df = tuned_rf_MSE s" and rs: "map R2 df = tuned_rf_R2 s"
    by blast
  have "zip (tree_count s) (tree_depth s) = ?cs"
    by (simp add: tc td zip_map_fst_snd)
  moreover have "cell_57 L D trees depths g = (Normal, s, Some df)"
    using assms df by (simp add: cell_57_def)
  ultimately show ?thesis
    using df len cols ms rs tc by (auto simp: length_row_major)
qed

section \<open>The shape of the result table\<close>

lemmas mean_forest_defs =
  mean_forest_def mf_new_def mf_fit_def mf_predict_def mf_score_def mse_def r2_def
  squared_errors_def

lemma mean_forest_accepts_data3:
  "1 \<le> t \<Longrightarrow> 1 \<le> d \<Longrightarrow> accepts mean_forest data3 t d"
  by (simp add: accepts_def body_def mean_forest_defs data3_def)

text \<open>
  Claim C1. Whenever the sweep returns, its result table has exactly
  \<open>|tree_counts| \<times> |max_depths|\<close> rows, one per cell of the Cartesian product, in row-major
  order (tree counts outside, depths inside): the hyperparameter columns of the table are
  the row-major list itself, so nothing is deduplicated and nothing is sorted. And the
  sweep does return when the trainer and the scorer accept every cell of the grid. The
  lists may also be empty. For \<open>[50, 100]\<close> and \<open>[1, 3]\<close> the rows are (50,1), (50,3),
  (100,1), (100,3); the notebook's own grid gives 30 rows.
\<close>

theorem sweep_row_major:
  fixes L :: "('m, 'g, 'e) sklearn"
  shows "(\<forall>s df. cell_57 L D trees depths g = (Normal, s, Some df) \<longrightarrow>
           length df = length trees * length depths \<and>
           map (\<lambda>r. (Number_of_trees r, Max_depth r)) df = row_major trees depths) \<and>
         ((\<forall>t\<in>set trees. \<forall>d\<in>set depths. accepts L D t d) \<longrightarrow>
           (\<exists>s df. cell_57 L D trees depths g = (Normal, s, Some df)))"
proof (intro conjI allI impI)
  fix s :: "'g globals" and df
  assume c: "cell_57 L D trees depths g = (Normal, s, Some df)"
  then have "outer_loop L D trees depths (init_57 g) = (Normal, s)"
    by (auto simp: cell_57_def split: prod.splits outcome.splits sum.splits)
  from outer_loop_table[OF this] c
  show "length df = length trees * length depths"
    and "map (\<lambda>r. (Number_of_trees r, Max_depth r)) df = row_major trees depths"
    by auto
next
  assume "\<forall>t\<in>set trees. \<forall>d\<in>set depths. accepts L D t d"
  then have "\<forall>c\<in>set (row_major trees depths). accepts L D (fst c) (snd c)"
    by (auto simp: set_row_major)
  from run_cells_accepts[OF this] obtain s
    where "run_cells L D (row_major trees depths) (init_57 g) = (Normal, s)"
    by blast
  then have "outer_loop L D trees depths (init_57 g) = (Normal, s)"
    by (simp add: outer_loop_flat)
  from outer_loop_table[OF this]
  show "\<exists>s df. cell_57 L D trees depths g = (Normal, s, Some df)"
    by blast
qed

theorem sweep_row_major_witness:
  "(\<exists>s df. cell_57 mean_forest data3 [50, 100] [1, 3] 0 = (Normal, s, Some df) \<and>
      length df = 4 \<and>
      map (\<lambda>r. (Number_of_trees r, Max_depth r)) df = [(50, 1), (50, 3), (100, 1), (100, 3)]) \<and>
   (\<exists>s df. cell_57 mean_forest data3 trees_57 depths_57 0 = (Normal, s, Some df) \<and>
      length df = 30 \<and>
      map (\<lambda>r. (Number_of_trees r, Max_depth r)) (take 7 df) =
        [(50, 1), (50, 3), (50, 5), (50, 7), (50, 9), (50, 11), (100, 1)])"
proof -
  note shape = sweep_row_major[where L = mean_forest and D = data3 and g = 0]
  have "\<forall>t\<in>set [50, 100]. \<forall>d\<in>set [1, 3]. accepts mean_forest data3 t d"
    by (simp add: mean_forest_accepts_data3)
  with shape[of "[50, 100]" "[1, 3]"] obtain s df
    where c: "cell_57 mean_forest data3 [50, 100] [1, 3] 0 = (Normal, s, Some df)"
    by blast
  with shape[of "[50, 100]" "[1, 3]"]
  have "length df = length [50::int, 100] * length [1::int, 3] \<and>
      map (\<lambda>r. (Number_of_trees r, Max_depth r)) df = row_major [50, 100] [1, 3]"
    by blast
  with c have first: "\<exists>s df. cell_57 mean_forest data3 [50, 100] [1, 3] 0 = (Normal, s, Some df) \<and>
      length df = 4 \<and>
      map (\<lambda>r. (Number_of_trees r, Max_depth r)) df = [(50, 1), (50, 3), (100, 1), (100, 3)]"
    by (simp add: row_major_def)
  have "\<forall>t\<in>set trees_57. \<forall>d\<in>set depths_57. accepts mean_forest data3 t d"
    by (simp add: mean_forest_accepts_data3 trees_57_def depths_57_def)
  with shape[of trees_57 depths_57] obtain s' df'
    where c': "cell_57 mean_forest data3 trees_57 depths_57 0 = (Normal, s', Some df')"
    by blast
  with shape[of trees_57 depths_57]
  have l: "length df' = length trees_57 * length depths_57"
    and m: "map (\<lambda>r. (Number_of_trees r, Max_depth r)) df' = row_major trees_57 depths_57"
    by blast+
  have "map (\<lambda>r. (Number_of_trees r, Max_depth r)) (take 7 df') =
      take 7 (row_major trees_57 depths_57)"
    by (simp only: m take_map[symmetric])
  also have "\<dots> = [(50, 1), (50, 3), (50, 5), (50, 7), (50, 9), (50, 11), (100, 1)]"
    by (simp add: row_major_def trees_57_def depths_57_def numeral_eq_Suc)
  finally have t: "map (\<lambda>r. (Number_of_trees r, Max_depth r)) (take 7 df') =
      [(50, 1), (50, 3), (50, 5), (50, 7), (50, 9), (50, 11), (100, 1)]" .
  from l have "length df' = 30"
    by (simp add: trees_57_def depths_57_def)
  with c' t have "cell_57 mean_forest data3 trees_57 depths_57 0 = (Normal, s', Some df') \<and>
      length df' = 30 \<and>
      map (\<lambda>r. (Number_of_trees r, Max_depth r)) (take 7 df') =
        [(50, 1), (50, 3), (50, 5), (50, 7), (50, 9), (50, 11), (100, 1)]"
    by (intro conjI)
  then have "\<exists>s df. cell_57 mean_forest data3 trees_57 depths_57 0 = (Normal, s, Some df) \<and>
      length df = 30 \<and>
      map (\<lambda>r. (Number_of_trees r, Max_depth r)) (take 7 df) =
        [(50, 1), (50, 3), (50, 5), (50, 7), (50, 9), (50, 11), (100, 1)]"
    by (intro exI)
  with first show ?thesis by (rule conjI)
qed

lemma outer_loop_Raised:
  fixes L :: "('a, 'b, 'c) sklearn"
  assumes "outer_loop L D trees depths (init_57 g) = (Raised e, s)"
  shows "cell_57 L D trees depths g = (Raised e, s, None)"
  using assms by (simp add: cell_57_def)

lemma run_cells_Raised:
  "run_cells L D cs s = (Raised e, s') \<Longrightarrow> \<exists>e'. e = LibraryError e'"
proof (induction cs arbitrary: s)
  case Nil
  then show ?case by simp
next
  case (Cons c cs)
  show ?case
  proof (cases "body L D (fst c) (snd c) s")
    case (Pair out s1)
    show ?thesis
    proof (cases out)
      case Normal
      with Pair Cons.prems have "run_cells L D cs s1 = (Raised e, s')" by simp
      then show ?thesis by (rule Cons.IH)
    next
      case (Raised e1)
      with Pair Cons.prems have "body L D (fst c) (snd c) s = (Raised e, s')" by simp
      then show ?thesis by (rule body_Raised(1))
    qed
  qed
qed

lemma run_cells_prefix_lengths:
  assumes "run_cells L D cs (init_57 g) = (Normal, s)"
  shows "lengths_are (length cs) s"
  using run_cells_Normal[OF assms] by (simp add: lengths_are_def init_57_def)

section \<open>The invariant of the result lists\<close>

text \<open>
  Claim C10. The four result lists are empty before the loops. Every completed iteration
  of the inner loop's body adds one entry to each, so after the first \<open>k\<close> cells of the grid
  (the state of the loops after \<open>k\<close> iterations) each list has \<open>k\<close> entries. When the loops
  end, each has \<open>|tree_counts| \<times> |max_depths|\<close> entries, the result table is built from
  them, and building it never raises the \<open>ValueError\<close> of columns of different lengths.
\<close>

theorem result_lists_same_length:
  fixes L :: "('m, 'g, 'e) sklearn"
  shows "lengths_are 0 (init_57 g) \<and>
    (\<forall>t d s s' n. body L D t d s = (Normal, s') \<longrightarrow> lengths_are n s \<longrightarrow> lengths_are (Suc n) s') \<and>
    (\<forall>k s. run_cells L D (take k (row_major trees depths)) (init_57 g) = (Normal, s) \<longrightarrow>
       lengths_are (min k (length trees * length depths)) s) \<and>
    (\<forall>s. outer_loop L D trees depths (init_57 g) = (Normal, s) \<longrightarrow>
       lengths_are (length trees * length depths) s \<and>
       (\<exists>df. cell_57 L D trees depths g = (Normal, s, Some df) \<and>
             length df = length trees * length depths)) \<and>
    fst (cell_57 L D trees depths g) \<noteq> Raised (PythonError ValueError)"
proof (intro conjI allI impI)
  show "lengths_are 0 (init_57 g)"
    by (simp add: lengths_are_def init_57_def)
next
  fix t d n and s s' :: "'g globals"
  assume "body L D t d s = (Normal, s')" and "lengths_are n s"
  then show "lengths_are (Suc n) s'" by (rule body_lengths)
next
  fix k and s :: "'g globals"
  assume "run_cells L D (take k (row_major trees depths)) (init_57 g) = (Normal, s)"
  from run_cells_prefix_lengths[OF this]
  show "lengths_are (min k (length trees * length depths)) s"
    by (simp add: length_row_major min.commute)
next
  fix s :: "'g globals"
  assume o: "outer_loop L D trees depths (init_57 g) = (Normal, s)"
  then have "run_cells L D (row_major trees depths) (init_57 g) = (Normal, s)"
    by (simp add: outer_loop_flat)
  from run_cells_prefix_lengths[OF this]
  show "lengths_are (length trees * length depths) s"
    by (simp add: length_row_major)
  from outer_loop_table[OF o]
  show "\<exists>df. cell_57 L D trees depths g = (Normal, s, Some df) \<and>
             length df = length trees * length depths"
    by blast
next
  show "fst (cell_57 L D trees depths g) \<noteq> Raised (PythonError ValueError)"
  proof (cases "outer_loop L D trees depths (init_57 g)")
    case (Pair out s)
    show ?thesis
    proof (cases out)
      case Normal
      with Pair outer_loop_table[of L D trees depths g s] show ?thesis by auto
    next
      case (Raised e)
      with Pair have r: "run_cells L D (row_major trees depths) (init_57 g) = (Raised e, s)"
        by (simp add: outer_loop_flat)
      from run_cells_Raised[OF r] outer_loop_Raised[of L D trees depths g e s] Pair Raised
      show ?thesis by auto
    qed
  qed
qed

theorem result_lists_same_length_witness:
  "lengths_are 0 (init_57 (0::nat)) \<and>
   (\<exists>s. run_cells mean_forest data3 (take 3 (row_major [50, 100] [1, 3])) (init_57 0) = (Normal, s) \<and>
        lengths_are 3 s) \<and>
   (\<exists>s df. cell_57 mean_forest data3 [50, 100] [1, 3] 0 = (Normal, s, Some df) \<and>
        lengths_are 4 s \<and> length df = 4)"
proof -
  note inv = result_lists_same_length[of 0 mean_forest data3 "[50, 100]" "[1, 3]"]
  have acc: "\<forall>c\<in>set cs. accepts mean_forest data3 (fst c) (snd c)"
    if "set cs \<subseteq> {(50, 1), (50, 3), (100, 1), (100, 3)}" for cs
    using that by (auto intro!: mean_forest_accepts_data3)
  have "\<forall>c\<in>set (take 3 (row_major [50, 100] [1, 3])). accepts mean_forest data3 (fst c) (snd c)"
    by (rule acc) (simp add: row_major_def numeral_eq_Suc)
  from run_cells_accepts[OF this] obtain s3
    where s3: "run_cells mean_forest data3 (take 3 (row_major [50, 100] [1, 3])) (init_57 0) = (Normal, s3)"
    by blast
  from inv have "run_cells mean_forest data3 (take 3 (row_major [50, 100] [1, 3])) (init_57 0) = (Normal, s3)
      \<longrightarrow> lengths_are (min 3 (length [50::int, 100] * length [1::int, 3])) s3"
    by blast
  with s3 have l3: "lengths_are 3 s3" by (simp add: numeral_eq_Suc)
  have "\<forall>c\<in>set (row_major [50, 100] [1, 3]). accepts mean_forest data3 (fst c) (snd c)"
    by (rule acc) (simp add: row_major_def)
  from run_cells_accepts[OF this] obtain s4
    where "run_cells mean_forest data3 (row_major [50, 100] [1, 3]) (init_57 0) = (Normal, s4)"
    by blast
  then have o4: "outer_loop mean_forest data3 [50, 100] [1, 3] (init_57 0) = (Normal, s4)"
    by (simp only: outer_loop_flat)
  from inv have "outer_loop mean_forest data3 [50, 100] [1, 3] (init_57 0) = (Normal, s4) \<longrightarrow>
      lengths_are (length [50::int, 100] * length [1::int, 3]) s4 \<and>
      (\<exists>df. cell_57 mean_forest data3 [50, 100] [1, 3] 0 = (Normal, s4, Some df) \<and>
            length df = length [50::int, 100] * length [1::int, 3])"
    by blast
  with o4 have l4: "lengths_are 4 s4 \<and>
      (\<exists>df. cell_57 mean_forest data3 [50, 100] [1, 3] 0 = (Normal, s4, Some df) \<and> length df = 4)"
    by (simp add: numeral_eq_Suc)
  from inv have "lengths_are 0 (init_57 (0::nat))" by blast
  with s3 l3 l4 show ?thesis by blast
qed


section \<open>A failing cell ends the sweep\<close>

lemma sweep_stops_at:
  fixes L :: "('m, 'g, 'e) sklearn"
  assumes "row_major trees depths = pre @ (t, d) # post"
    and "run_cells L D pre (init_57 g) = (Normal, s1)"
    and "body L D t d s1 = (Raised e, s2)"
  shows "cell_57 L D trees depths g = (Raised e, s2, None)"
proof -
  have "run_cells L D (pre @ (t, d) # post) (init_57 g) = (Raised e, s2)"
    using assms(2,3) by (rule run_cells_first_failure)
  then have "outer_loop L D trees depths (init_57 g) = (Raised e, s2)"
    by (simp add: outer_loop_flat assms(1))
  then show ?thesis by (rule outer_loop_Raised)
qed

lemma body_fit_fails:
  assumes "RandomForestRegressor L t d = Inr m"
    and "fit L m (x_train_scaled D) (y_train D) (rng s) = Inl e"
  shows "body L D t d s = (Raised (LibraryError e), s)"
  using assms by (simp add: body_def)

lemma body_mse_fails:
  assumes "RandomForestRegressor L t d = Inr m"
    and "fit L m (x_train_scaled D) (y_train D) (rng s) = Inr (m', g')"
    and "predict L m' (x_test_scaled D) = Inr yp"
    and "mean_squared_error L (y_test D) yp = Inl e"
  shows "body L D t d s =
    (Raised (LibraryError e),
     s\<lparr>fitted := fitted s @ [(t, d)], rng := g', tree_count := tree_count s @ [t],
       tree_depth := tree_depth s @ [d]\<rparr>)"
  using assms by (simp add: body_def)

lemma body_r2_fails:
  assumes "RandomForestRegressor L t d = Inr m"
    and "fit L m (x_train_scaled D) (y_train D) (rng s) = Inr (m', g')"
    and "predict L m' (x_test_scaled D) = Inr yp"
    and "mean_squared_error L (y_test D) yp = Inr a"
    and "r2_score L (y_test D) yp = Inl e"
  shows "body L D t d s =
    (Raised (LibraryError e),
     s\<lparr>fitted := fitted s @ [(t, d)], rng := g', tree_count := tree_count s @ [t],
       tree_depth := tree_depth s @ [d], tuned_rf_MSE := tuned_rf_MSE s @ [a]\<rparr>)"
  using assms by (simp add: body_def)

lemma mean_forest_first_cell:
  "run_cells mean_forest data3 [(50, 3)] (init_57 0) =
     (Normal, \<lparr>tree_count = [50], tree_depth = [3], tuned_rf_MSE = [Num (5 / 2)],
               tuned_rf_R2 = [Num (- (1 / 9))], fitted = [(50, 3)], rng = 50\<rparr>)"
  by (simp add: init_57_def body_def mean_forest_defs data3_def power2_eq_square)

text \<open>
  Claim C5. Let the cells before \<open>(t, d)\<close> in row-major order complete, and let a library
  call of the cell \<open>(t, d)\<close> raise: \<open>fit\<close>, or \<open>predict\<close> on the model just fit, or one of
  the two scorers on the prediction. Then the sweep ends with that exception as its
  outcome. The cell is not skipped and no later cell is evaluated: the globals are those
  the earlier cells left, with the failing cell's model in the log exactly when its \<open>fit\<close>
  had returned, and its hyperparameters in the result lists only when a scorer raised. No
  result table is built.
\<close>

theorem sweep_aborts_at_failing_cell:
  fixes L :: "('m, 'g, 'e) sklearn"
  assumes "row_major trees depths = pre @ (t, d) # post"
    and "run_cells L D pre (init_57 g) = (Normal, s1)"
    and "RandomForestRegressor L t d = Inr m"
  shows "fitted s1 = pre \<and> tree_count s1 = map fst pre \<and>
         (fit L m (x_train_scaled D) (y_train D) (rng s1) = Inl e \<longrightarrow>
            cell_57 L D trees depths g = (Raised (LibraryError e), s1, None)) \<and>
         (\<forall>m' g'. fit L m (x_train_scaled D) (y_train D) (rng s1) = Inr (m', g') \<longrightarrow>
            (predict L m' (x_test_scaled D) = Inl e \<longrightarrow>
               cell_57 L D trees depths g =
                 (Raised (LibraryError e), s1\<lparr>fitted := pre @ [(t, d)], rng := g'\<rparr>, None)) \<and>
            (\<forall>yp. predict L m' (x_test_scaled D) = Inr yp \<longrightarrow>
               (mean_squared_error L (y_test D) yp = Inl e \<longrightarrow>
                  cell_57 L D trees depths g =
                    (Raised (LibraryError e),
                     s1\<lparr>fitted := pre @ [(t, d)], rng := g',
                        tree_count := tree_count s1 @ [t],
                        tree_depth := tree_depth s1 @ [d]\<rparr>, None)) \<and>
               (\<forall>a. mean_squared_error L (y_test D) yp = Inr a \<longrightarrow>
                  r2_score L (y_test D) yp = Inl e \<longrightarrow>
                  cell_57 L D trees depths g =
                    (Raised (LibraryError e),
                     s1\<lparr>fitted := pre @ [(t, d)], rng := g',
                        tree_count := tree_count s1 @ [t],
                        tree_depth := tree_depth s1 @ [d],
                        tuned_rf_MSE := tuned_rf_MSE s1 @ [a]\<rparr>, None))))"
proof -
  note stop = sweep_stops_at[OF assms(1,2)]
  from run_cells_Normal[OF assms(2)]
  have f: "fitted s1 = pre" and tc: "tree_count s1 = map fst pre"
    by (simp_all add: init_57_def)
  show ?thesis
  proof (intro conjI allI impI)
    assume "fit L m (x_train_scaled D) (y_train D) (rng s1) = Inl e"
    with assms(3) have "body L D t d s1 = (Raised (LibraryError e), s1)"
      by (rule body_fit_fails)
    then show "cell_57 L D trees depths g = (Raised (LibraryError e), s1, None)"
      by (rule stop)
  next
    fix m' g'
    assume "fit L m (x_train_scaled D) (y_train D) (rng s1) = Inr (m', g')"
      and "predict L m' (x_test_scaled D) = Inl e"
    with assms(3) have "body L D t d s1 =
        (Raised (LibraryError e), s1\<lparr>fitted := fitted s1 @ [(t, d)], rng := g'\<rparr>)"
      by (rule body_predict_fails)
    from stop[OF this] f
    show "cell_57 L D trees depths g =
        (Raised (LibraryError e), s1\<lparr>fitted := pre @ [(t, d)], rng := g'\<rparr>, None)"
      by simp
  next
    fix m' g' yp
    assume "fit L m (x_train_scaled D) (y_train D) (rng s1) = Inr (m', g')"
      and "predict L m' (x_test_scaled D) = Inr yp"
      and "mean_squared_error L (y_test D) yp = Inl e"
    with assms(3) have "body L D t d s1 =
        (Raised (LibraryError e),
         s1\<lparr>fitted := fitted s1 @ [(t, d)], rng := g', tree_count := tree_count s1 @ [t],
            tree_depth := tree_depth s1 @ [d]\<rparr>)"
      by (rule body_mse_fails)
    from stop[OF this] f
    show "cell_57 L D trees depths g =
        (Raised (LibraryError e),
         s1\<lparr>fitted := pre @ [(t, d)], rng := g', tree_count := tree_count s1 @ [t],
            tree_depth := tree_depth s1 @ [d]\<rparr>, None)"
      by simp
  next
    fix m' g' yp a
    assume "fit L m (x_train_scaled D) (y_train D) (rng s1) = Inr (m', g')"
      and "predict L m' (x_test_scaled D) = Inr yp"
      and "mean_squared_error L (y_test D) yp = Inr a"
      and "r2_score L (y_test D) yp = Inl e"
    with assms(3) have "body L D t d s1 =
        (Raised (LibraryError e),
         s1\<lparr>fitted := fitted s1 @ [(t, d)], rng := g', tree_count := tree_count s1 @ [t],
            tree_depth := tree_depth s1 @ [d], tuned_rf_MSE := tuned_rf_MSE s1 @ [a]\<rparr>)"
      by (rule body_r2_fails)
    from stop[OF this] f
    show "cell_57 L D trees depths g =
        (Raised (LibraryError e),
         s1\<lparr>fitted := pre @ [(t, d)], rng := g', tree_count := tree_count s1 @ [t],
            tree_depth := tree_depth s1 @ [d], tuned_rf_MSE := tuned_rf_MSE s1 @ [a]\<rparr>, None)"
      by simp
  qed (rule f tc)+
qed

text \<open>
  A failure of \<open>fit\<close> at the second cell of a grid of four, and a failure of \<open>predict\<close> at
  the first cell of a grid of two.
\<close>

theorem sweep_aborts_at_failing_cell_witness:
  "cell_57 mean_forest data3 [50, 100] [3, 0] 0 =
     (Raised (LibraryError InvalidParameterError),
      \<lparr>tree_count = [50], tree_depth = [3], tuned_rf_MSE = [Num (5 / 2)],
        tuned_rf_R2 = [Num (- (1 / 9))], fitted = [(50, 3)], rng = 50\<rparr>, None) \<and>
   cell_57 mean_forest data34 [50] [1, 3] 0 =
     (Raised (LibraryError FeatureCountError),
      \<lparr>tree_count = [], tree_depth = [], tuned_rf_MSE = [], tuned_rf_R2 = [],
        fitted = [(50, 1)], rng = 50\<rparr>, None)"
proof -
  let ?s1 = "\<lparr>tree_count = [50], tree_depth = [3], tuned_rf_MSE = [Num (5 / 2)],
               tuned_rf_R2 = [Num (- (1 / 9))], fitted = [(50, 3)], rng = 50::nat\<rparr>"
  let ?m = "\<lambda>d. \<lparr>n_estimators = 50, max_depth = d, n_features_in = None, leaf_value = 0\<rparr>"
  let ?m' = "\<lparr>n_estimators = 50, max_depth = 1, n_features_in = Some 3, leaf_value = 2\<rparr>"
  have a: "row_major [50, 100] [3, 0] = [(50, 3)] @ (50, 0) # [(100, 3), (100, 0)]"
    by (simp add: row_major_def)
  have b: "RandomForestRegressor mean_forest 50 0 = Inr (?m 0)"
    by (simp add: mean_forest_defs)
  have c: "fit mean_forest (?m 0) (x_train_scaled data3) (y_train data3) (rng ?s1)
      = Inl InvalidParameterError"
    by (simp add: mean_forest_defs)
  from sweep_aborts_at_failing_cell[OF a mean_forest_first_cell b, of InvalidParameterError] c
  have first: "cell_57 mean_forest data3 [50, 100] [3, 0] 0 =
      (Raised (LibraryError InvalidParameterError), ?s1, None)"
    by blast
  have a': "row_major [50] [1, 3] = [] @ (50, 1) # [(50, 3)]"
    by (simp add: row_major_def)
  have r': "run_cells mean_forest data34 [] (init_57 0) = (Normal, init_57 0)"
    by simp
  have b': "RandomForestRegressor mean_forest 50 1 = Inr (?m 1)"
    by (simp add: mean_forest_defs)
  have c': "fit mean_forest (?m 1) (x_train_scaled data34) (y_train data34) (rng (init_57 0))
      = Inr (?m', 50)"
    by (simp add: mean_forest_defs data34_def init_57_def)
  have d': "predict mean_forest ?m' (x_test_scaled data34) = Inl FeatureCountError"
    by (simp add: mean_forest_defs data34_def)
  from sweep_aborts_at_failing_cell[OF a' r' b', of FeatureCountError] c' d'
  have "cell_57 mean_forest data34 [50] [1, 3] 0 =
      (Raised (LibraryError FeatureCountError),
       (init_57 0)\<lparr>fitted := [] @ [(50, 1)], rng := 50\<rparr>, None)"
    by blast
  then have second: "cell_57 mean_forest data34 [50] [1, 3] 0 =
     (Raised (LibraryError FeatureCountError),
      \<lparr>tree_count = [], tree_depth = [], tuned_rf_MSE = [], tuned_rf_R2 = [],
        fitted = [(50, 1)], rng = 50\<rparr>, None)"
    by (simp add: init_57_def)
  from first second show ?thesis by (rule conjI)
qed

section \<open>Hyperparameters the trainer rejects\<close>

theorem invalid_hyperparameter_counterexample:
  "cell_57 mean_forest data3 [50, 0] [1] 0 =
     (Raised (LibraryError InvalidParameterError),
      \<lparr>tree_count = [50], tree_depth = [1], tuned_rf_MSE = [Num (5 / 2)],
        tuned_rf_R2 = [Num (- (1 / 9))], fitted = [(50, 1)], rng = 50\<rparr>, None) \<and>
   cell_57 mean_forest data3 [0] [] 0 = (Normal, init_57 0, Some [])"
  by (simp add: cell_57_def init_57_def body_def mean_forest_defs data3_def DataFrame_def
      power2_eq_square)

text \<open>
  Claim C2, amended. The sweep validates nothing itself. When the trainer rejects a grid
  cell, at the construction of the model or at \<open>fit\<close>, and the cells before it in row-major
  order complete, the sweep fails with the trainer's error when the loops reach that cell:
  the models fit by then are exactly those of the earlier cells. So no model is fit when
  the rejected cell is the first of the grid, as for tree counts \<open>[0]\<close> and a non-empty list
  of depths.
\<close>

theorem sweep_fails_where_trainer_rejects:
  fixes L :: "('m, 'g, 'e) sklearn"
  assumes "row_major trees depths = pre @ (t, d) # post"
    and "run_cells L D pre (init_57 g) = (Normal, s1)"
    and "RandomForestRegressor L t d = Inl e \<or>
         (\<exists>m. RandomForestRegressor L t d = Inr m \<and>
              fit L m (x_train_scaled D) (y_train D) (rng s1) = Inl e)"
  shows "cell_57 L D trees depths g = (Raised (LibraryError e), s1, None) \<and> fitted s1 = pre"
proof -
  have "body L D t d s1 = (Raised (LibraryError e), s1)"
    using assms(3) by (rule body_rejected)
  from sweep_stops_at[OF assms(1,2) this] run_cells_Normal[OF assms(2)]
  show ?thesis by (simp add: init_57_def)
qed

theorem sweep_fails_where_trainer_rejects_witness:
  "cell_57 mean_forest data3 [0] [1] 0 =
     (Raised (LibraryError InvalidParameterError), init_57 0, None) \<and>
   fitted (init_57 (0::nat)) = []"
proof -
  have a: "row_major [0] [1] = [] @ (0, 1) # []"
    by (simp add: row_major_def)
  have b: "run_cells mean_forest data3 [] (init_57 0) = (Normal, init_57 0)"
    by simp
  have c: "RandomForestRegressor mean_forest 0 1 = Inl InvalidParameterError \<or>
         (\<exists>m. RandomForestRegressor mean_forest 0 1 = Inr m \<and>
              fit mean_forest m (x_train_scaled data3) (y_train data3) (rng (init_57 0))
                = Inl InvalidParameterError)"
    by (simp add: mean_forest_defs)
  from sweep_fails_where_trainer_rejects[OF a b c] show ?thesis by simp
qed

section \<open>Training and test matrices with different columns\<close>

theorem schema_mismatch_counterexample:
  "length (hd (x_train_scaled data34)) = 3 \<and> length (hd (x_test_scaled data34)) = 4 \<and>
   cell_57 mean_forest data34 [50] [1] 0 =
     (Raised (LibraryError FeatureCountError),
      \<lparr>tree_count = [], tree_depth = [], tuned_rf_MSE = [], tuned_rf_R2 = [],
        fitted = [(50, 1)], rng = 50\<rparr>, None)"
  by (simp add: cell_57_def init_57_def body_def mean_forest_defs data34_def)

text \<open>
  Claim C3, amended. The sweep does not compare the two feature matrices. When the trainer
  fits the first grid cell on the training matrix and its \<open>predict\<close> then rejects the test
  matrix, the sweep fails with the trainer's error at that call: one model has been fit by
  then, the first cell's, and no result has been recorded.
\<close>

theorem sweep_fails_at_first_predict:
  fixes L :: "('m, 'g, 'e) sklearn"
  assumes "RandomForestRegressor L t d = Inr m"
    and "fit L m (x_train_scaled D) (y_train D) g = Inr (m', g')"
    and "predict L m' (x_test_scaled D) = Inl e"
  shows "cell_57 L D (t # trees) (d # depths) g =
           (Raised (LibraryError e), (init_57 g)\<lparr>fitted := [(t, d)], rng := g'\<rparr>, None)"
proof -
  have "rng (init_57 g) = g" by (simp add: init_57_def)
  with assms(2) have f: "fit L m (x_train_scaled D) (y_train D) (rng (init_57 g)) = Inr (m', g')"
    by simp
  have "body L D t d (init_57 g) =
      (Raised (LibraryError e), (init_57 g)\<lparr>fitted := fitted (init_57 g) @ [(t, d)], rng := g'\<rparr>)"
    using assms(1) f assms(3) by (rule body_predict_fails)
  then have "outer_loop L D (t # trees) (d # depths) (init_57 g) =
      (Raised (LibraryError e), (init_57 g)\<lparr>fitted := [(t, d)], rng := g'\<rparr>)"
    by (simp add: init_57_def)
  then show ?thesis by (rule outer_loop_Raised)
qed

theorem sweep_fails_at_first_predict_witness:
  "cell_57 mean_forest data34 [50, 100] [1, 3] 0 =
     (Raised (LibraryError FeatureCountError), (init_57 0)\<lparr>fitted := [(50, 1)], rng := 50\<rparr>, None)"
proof -
  let ?m = "\<lparr>n_estimators = 50, max_depth = 1, n_features_in = None, leaf_value = 0\<rparr>"
  let ?m' = "\<lparr>n_estimators = 50, max_depth = 1, n_features_in = Some 3, leaf_value = 2\<rparr>"
  have a: "RandomForestRegressor mean_forest 50 1 = Inr ?m"
    by (simp add: mean_forest_defs)
  have b: "fit mean_forest ?m (x_train_scaled data34) (y_train data34) 0 = Inr (?m', 50)"
    by (simp add: mean_forest_defs data34_def)
  have c: "predict mean_forest ?m' (x_test_scaled data34) = Inl FeatureCountError"
    by (simp add: mean_forest_defs data34_def)
  from sweep_fails_at_first_predict[OF a b c] show ?thesis by simp
qed


section \<open>The aromatic proportion\<close>

lemma aromatic_atoms_le: "length (GetAromaticAtoms m) \<le> GetNumAtoms m"
  by (simp add: GetAromaticAtoms_def GetNumAtoms_def)

text \<open>
  Claim C9. For a molecule with at least one atom \<open>aromatic_calc\<close> returns the number of
  aromatic atoms divided by the number of atoms, a value between 0 and 1. The division is
  not guarded: for a molecule without atoms it raises \<open>ZeroDivisionError\<close>.
\<close>

theorem aromatic_calc_ratio:
  "(GetNumAtoms m \<noteq> 0 \<longrightarrow>
      (\<exists>r. aromatic_calc (Some m) = Inr r \<and>
           r = real (length (GetAromaticAtoms m)) / real (GetNumAtoms m) \<and>
           0 \<le> r \<and> r \<le> 1)) \<and>
   (GetNumAtoms m = 0 \<longrightarrow> aromatic_calc (Some m) = Inl ZeroDivisionError)"
proof (intro conjI impI)
  assume n: "GetNumAtoms m \<noteq> 0"
  let ?r = "real (length (GetAromaticAtoms m)) / real (GetNumAtoms m)"
  have "aromatic_calc (Some m) = Inr ?r"
    using n by (simp add: aromatic_calc_def)
  moreover have "0 \<le> ?r" by simp
  moreover have "?r \<le> 1"
    using n aromatic_atoms_le[of m] by (simp add: divide_le_eq_1)
  ultimately show "\<exists>r. aromatic_calc (Some m) = Inr r \<and>
           r = real (length (GetAromaticAtoms m)) / real (GetNumAtoms m) \<and> 0 \<le> r \<and> r \<le> 1"
    by blast
next
  assume "GetNumAtoms m = 0"
  then show "aromatic_calc (Some m) = Inl ZeroDivisionError"
    by (simp add: aromatic_calc_def)
qed

theorem aromatic_calc_ratio_witness:
  "aromatic_calc (table_MolFromSmiles ''Cc1ccccc1'') = Inr (6 / 7) \<and>
   aromatic_calc (table_MolFromSmiles '''') = Inl ZeroDivisionError"
proof -
  let ?toluene = "[C_atom, c_atom, c_atom, c_atom, c_atom, c_atom, c_atom]"
  have t: "table_MolFromSmiles ''Cc1ccccc1'' = Some ?toluene"
    and e: "table_MolFromSmiles '''' = Some []"
    by (simp_all add: table_MolFromSmiles_def)
  have n: "GetNumAtoms ?toluene \<noteq> 0" "GetNumAtoms [] = 0"
    by (simp_all add: GetNumAtoms_def)
  have v: "real (length (GetAromaticAtoms ?toluene)) / real (GetNumAtoms ?toluene) = 6 / 7"
    by (simp add: GetAromaticAtoms_def GetNumAtoms_def C_atom_def c_atom_def)
  from aromatic_calc_ratio[of ?toluene] n(1) obtain r
    where "aromatic_calc (Some ?toluene) = Inr r"
      and "r = real (length (GetAromaticAtoms ?toluene)) / real (GetNumAtoms ?toluene)"
    by blast
  with v have "aromatic_calc (Some ?toluene) = Inr (6 / 7)" by (simp only:)
  moreover from aromatic_calc_ratio[of "[]"] n(2)
  have "aromatic_calc (Some []) = Inl ZeroDivisionError" by blast
  ultimately show ?thesis by (simp only: t e)
qed

section \<open>Molecules that fail to parse\<close>






section \<open>The range of the two metrics\<close>

lemma squared_errors_nonneg: "0 \<le> squared_errors y_true y_pred"
  unfolding squared_errors_def by (rule sum_list_nonneg) auto

lemma mse_nonneg: "mse y_true y_pred = Some v \<Longrightarrow> float_le (Num 0) v"
  by (auto simp: mse_def squared_errors_nonneg split: if_splits)

lemma r2_one_sample: "r2 y_true y_pred = Some v \<Longrightarrow> length y_true < 2 \<Longrightarrow> v = NaN"
  by (auto simp: r2_def split: if_splits)

lemma r2_le_1:
  assumes "r2 y_true y_pred = Some v" and "2 \<le> length y_true"
  shows "float_le v (Num 1)"
proof -
  let ?mean = "sum_list y_true / real (length y_true)"
  let ?tot = "sum_list (map (\<lambda>a. (a - ?mean)\<^sup>2) y_true)"
  have tot: "0 \<le> ?tot" by (rule sum_list_nonneg) auto
  from assms have len: "length y_true = length y_pred" "\<not> length y_pred < 2"
    by (auto simp: r2_def split: if_splits)
  show ?thesis
  proof (cases "?tot = 0")
    case True
    with assms len show ?thesis by (auto simp: r2_def Let_def split: if_splits)
  next
    case False
    with tot have "0 < ?tot" by simp
    then have "0 \<le> squared_errors y_true y_pred / ?tot"
      using squared_errors_nonneg[of y_true y_pred] by simp
    moreover from assms len False have "v = Num (1 - squared_errors y_true y_pred / ?tot)"
      by (auto simp: r2_def Let_def split: if_splits)
    ultimately show ?thesis by simp
  qed
qed

lemma body_errors_in_range:
  assumes "\<forall>yt yp v. mean_squared_error L yt yp = Inr v \<longrightarrow> mse yt yp = Some v"
    and "body L D t d s = (Normal, s')" and "errors_in_range s"
  shows "errors_in_range s'"
proof -
  from body_Normal(3)[OF assms(2)] obtain yp a
    where a: "mean_squared_error L (y_test D) yp = Inr a"
      and ms: "tuned_rf_MSE s' = tuned_rf_MSE s @ [a]"
    by blast
  from assms(1) a have "mse (y_test D) yp = Some a" by blast
  then have "float_le (Num 0) a" by (rule mse_nonneg)
  with assms(3) ms show ?thesis by (simp add: errors_in_range_def)
qed

lemma body_scores_in_range:
  assumes "\<forall>yt yp v. r2_score L yt yp = Inr v \<longrightarrow> r2 yt yp = Some v"
    and "2 \<le> length (y_test D)"
    and "body L D t d s = (Normal, s')" and "scores_in_range s"
  shows "scores_in_range s'"
proof -
  from body_Normal(4)[OF assms(3)] obtain yp b
    where b: "r2_score L (y_test D) yp = Inr b"
      and rs: "tuned_rf_R2 s' = tuned_rf_R2 s @ [b]"
    by blast
  from assms(1) b have "r2 (y_test D) yp = Some b" by blast
  then have "float_le b (Num 1)" using assms(2) by (rule r2_le_1)
  with assms(4) rs show ?thesis by (simp add: scores_in_range_def)
qed

lemma body_scores_undefined:
  assumes "\<forall>yt yp v. r2_score L yt yp = Inr v \<longrightarrow> r2 yt yp = Some v"
    and "length (y_test D) < 2"
    and "body L D t d s = (Normal, s')" and "list_all (\<lambda>b. b = NaN) (tuned_rf_R2 s)"
  shows "list_all (\<lambda>b. b = NaN) (tuned_rf_R2 s')"
proof -
  from body_Normal(4)[OF assms(3)] obtain yp b
    where b: "r2_score L (y_test D) yp = Inr b"
      and rs: "tuned_rf_R2 s' = tuned_rf_R2 s @ [b]"
    by blast
  from assms(1) b have "r2 (y_test D) yp = Some b" by blast
  then have "b = NaN" using assms(2) by (rule r2_one_sample)
  with assms(4) rs show ?thesis by simp
qed

lemma run_cells_invariant:
  assumes step: "\<And>t d s s'. body L D t d s = (Normal, s') \<Longrightarrow> P s \<Longrightarrow> P s'"
  shows "run_cells L D cs s = (Normal, s') \<Longrightarrow> P s \<Longrightarrow> P s'"
proof (induction cs arbitrary: s)
  case Nil
  then show ?case by simp
next
  case (Cons c cs)
  from Cons.prems(1) obtain s1 where b: "body L D (fst c) (snd c) s = (Normal, s1)"
    and r: "run_cells L D cs s1 = (Normal, s')"
    by (auto split: prod.splits outcome.splits)
  from step[OF b Cons.prems(2)] have "P s1" .
  with r show ?case by (rule Cons.IH)
qed

theorem metrics_range_counterexample:
  "cell_57 mean_forest data1 [50] [1] 0 =
     (Normal,
      \<lparr>tree_count = [50], tree_depth = [1], tuned_rf_MSE = [Num 1], tuned_rf_R2 = [NaN],
        fitted = [(50, 1)], rng = 50\<rparr>,
      Some [\<lparr>Number_of_trees = 50, Max_depth = 1, MSE = Num 1, R2 = NaN\<rparr>]) \<and>
   \<not> float_le NaN (Num 1)"
  by (simp add: cell_57_def init_57_def body_def mean_forest_defs data1_def DataFrame_def)

text \<open>
  Claim C7, amended. With the scorer of the specification, computed exactly, every row of
  the result table of a sweep that returns has a mean squared error that is a number of at
  least 0. Its coefficient of determination is a number of at most 1 when the test
  partition has two rows or more, and is not-a-number in every row when the test partition
  has a single row. This holds whatever the trainer predicts.
\<close>

theorem sweep_metrics_in_range:
  fixes L :: "('m, 'g, 'e) sklearn"
  assumes "\<forall>yt yp v. mean_squared_error L yt yp = Inr v \<longrightarrow> mse yt yp = Some v"
    and "\<forall>yt yp v. r2_score L yt yp = Inr v \<longrightarrow> r2 yt yp = Some v"
    and "cell_57 L D trees depths g = (Normal, s, Some df)"
  shows "(\<forall>r\<in>set df. float_le (Num 0) (MSE r)) \<and>
         (2 \<le> length (y_test D) \<longrightarrow> (\<forall>r\<in>set df. float_le (R2 r) (Num 1))) \<and>
         (length (y_test D) < 2 \<longrightarrow> (\<forall>r\<in>set df. R2 r = NaN))"
proof -
  from assms(3) have o: "outer_loop L D trees depths (init_57 g) = (Normal, s)"
    by (auto simp: cell_57_def split: prod.splits outcome.splits sum.splits)
  then have r: "run_cells L D (row_major trees depths) (init_57 g) = (Normal, s)"
    by (simp add: outer_loop_flat)
  from outer_loop_table[OF o] assms(3)
  have cols: "map MSE df = tuned_rf_MSE s" "map R2 df = tuned_rf_R2 s"
    by auto
  have "errors_in_range (init_57 g)"
    by (simp add: errors_in_range_def init_57_def)
  with r have "errors_in_range s"
    by (rule run_cells_invariant[rotated]) (rule body_errors_in_range[OF assms(1)])
  then have "list_all (\<lambda>a. float_le (Num 0) a) (map MSE df)"
    by (simp add: errors_in_range_def cols)
  then have one: "\<forall>r\<in>set df. float_le (Num 0) (MSE r)"
    by (simp add: list_all_iff)
  have two: "\<forall>r\<in>set df. float_le (R2 r) (Num 1)" if n: "2 \<le> length (y_test D)"
  proof -
    have "scores_in_range (init_57 g)"
      by (simp add: scores_in_range_def init_57_def)
    with r have "scores_in_range s"
      by (rule run_cells_invariant[rotated]) (rule body_scores_in_range[OF assms(2) n])
    then have "list_all (\<lambda>b. float_le b (Num 1)) (map R2 df)"
      by (simp add: scores_in_range_def cols)
    then show ?thesis by (simp add: list_all_iff)
  qed
  have three: "\<forall>r\<in>set df. R2 r = NaN" if n: "length (y_test D) < 2"
  proof -
    have "list_all (\<lambda>b. b = NaN) (tuned_rf_R2 (init_57 g))"
      by (simp add: init_57_def)
    with r have "list_all (\<lambda>b. b = NaN) (tuned_rf_R2 s)"
      by (rule run_cells_invariant[rotated]) (rule body_scores_undefined[OF assms(2) n])
    then have "list_all (\<lambda>b. b = NaN) (map R2 df)"
      by (simp add: cols)
    then show ?thesis by (simp add: list_all_iff)
  qed
  from one two three show ?thesis by blast
qed

lemma mean_forest_table:
  "cell_57 mean_forest data3 [50] [1, 3] 0 =
     (Normal,
      \<lparr>tree_count = [50, 50], tree_depth = [1, 3], tuned_rf_MSE = [Num (5 / 2), Num (5 / 2)],
        tuned_rf_R2 = [Num (- (1 / 9)), Num (- (1 / 9))], fitted = [(50, 1), (50, 3)],
        rng = 100\<rparr>,
      Some [\<lparr>Number_of_trees = 50, Max_depth = 1, MSE = Num (5 / 2), R2 = Num (- (1 / 9))\<rparr>,
            \<lparr>Number_of_trees = 50, Max_depth = 3, MSE = Num (5 / 2), R2 = Num (- (1 / 9))\<rparr>])"
  by (simp add: cell_57_def init_57_def body_def mean_forest_defs data3_def DataFrame_def
      power2_eq_square upt_rec)

theorem sweep_metrics_in_range_witness:
  "(\<exists>s df. cell_57 mean_forest data3 [50] [1, 3] 0 = (Normal, s, Some df) \<and>
      length df = 2 \<and> list_all (\<lambda>r. float_le (Num 0) (MSE r) \<and> float_le (R2 r) (Num 1)) df) \<and>
   (\<exists>s df. cell_57 mean_forest data1 [50] [1] 0 = (Normal, s, Some df) \<and>
      length df = 1 \<and> list_all (\<lambda>r. float_le (Num 0) (MSE r) \<and> R2 r = NaN) df)"
proof -
  have a: "\<forall>yt yp v. mean_squared_error mean_forest yt yp = Inr v \<longrightarrow> mse yt yp = Some v"
    by (auto simp: mean_forest_def mf_score_def split: option.splits)
  have b: "\<forall>yt yp v. r2_score mean_forest yt yp = Inr v \<longrightarrow> r2 yt yp = Some v"
    by (auto simp: mean_forest_def mf_score_def split: option.splits)
  have n: "2 \<le> length (y_test data3)" "length (y_test data1) < 2"
    by (simp_all add: data3_def data1_def)
  let ?s1 = "\<lparr>tree_count = [50], tree_depth = [1], tuned_rf_MSE = [Num 1], tuned_rf_R2 = [NaN],
        fitted = [(50, 1)], rng = 50::nat\<rparr>"
  let ?df1 = "[\<lparr>Number_of_trees = 50, Max_depth = 1, MSE = Num 1, R2 = NaN\<rparr>]"
  have c: "cell_57 mean_forest data1 [50] [1] 0 = (Normal, ?s1, Some ?df1)"
    by (simp add: cell_57_def init_57_def body_def mean_forest_defs data1_def DataFrame_def)
  from sweep_metrics_in_range[OF a b mean_forest_table] n(1)
  have "\<exists>s df. cell_57 mean_forest data3 [50] [1, 3] 0 = (Normal, s, Some df) \<and>
      length df = 2 \<and> list_all (\<lambda>r. float_le (Num 0) (MSE r) \<and> float_le (R2 r) (Num 1)) df"
    by (simp add: mean_forest_table list_all_iff)
  moreover from sweep_metrics_in_range[OF a b c] n(2)
  have "\<exists>s df. cell_57 mean_forest data1 [50] [1] 0 = (Normal, s, Some df) \<and>
      length df = 1 \<and> list_all (\<lambda>r. float_le (Num 0) (MSE r) \<and> R2 r = NaN) df"
    by (simp add: c)
  ultimately show ?thesis by (rule conjI)
qed

section \<open>The scaled training columns\<close>

lemma sum_list_shift_scale:
  fixes m c :: real
  shows "sum_list (map (\<lambda>x. (x - m) / c) xs) = (sum_list xs - real (length xs) * m) / c"
  by (induction xs) (simp_all add: add_divide_distrib diff_divide_distrib algebra_simps)

lemma sum_list_squares_scale:
  fixes m c :: real
  shows "sum_list (map (\<lambda>x. ((x - m) / c)\<^sup>2) xs) = sum_list (map (\<lambda>x. (x - m)\<^sup>2) xs) / c\<^sup>2"
  by (induction xs) (simp_all add: add_divide_distrib power_divide)

lemma sum_list_constant:
  fixes a :: real
  shows "\<forall>x\<in>set xs. x = a \<Longrightarrow> sum_list xs = real (length xs) * a"
  by (induction xs) (simp_all add: algebra_simps)

lemma mean_of_scaled:
  assumes "xs \<noteq> []"
  shows "mean_of (transform_column (fit_column xs) xs) = 0"
proof -
  have n: "real (length xs) \<noteq> 0" using assms by simp
  have "sum_list xs - real (length xs) * mean_of xs = 0"
    using n by (simp add: mean_of_def)
  then show ?thesis
    by (simp add: mean_of_def transform_column_def fit_column_def sum_list_shift_scale)
qed

lemma std_of_zero_iff:
  assumes "xs \<noteq> []"
  shows "std_of xs = 0 \<longleftrightarrow> is_constant xs"
proof -
  have n: "real (length xs) \<noteq> 0" using assms by simp
  have "std_of xs = 0 \<longleftrightarrow> sum_list (map (\<lambda>x. (x - mean_of xs)\<^sup>2) xs) = 0"
    using n by (simp add: std_of_def)
  also have "\<dots> \<longleftrightarrow> (\<forall>x\<in>set xs. x = mean_of xs)"
    by (subst sum_list_nonneg_eq_0_iff) auto
  also have "\<dots> \<longleftrightarrow> (\<forall>x\<in>set xs. x = hd xs)"
  proof
    assume a: "\<forall>x\<in>set xs. x = mean_of xs"
    with assms have "hd xs = mean_of xs" by simp
    with a show "\<forall>x\<in>set xs. x = hd xs" by simp
  next
    assume a: "\<forall>x\<in>set xs. x = hd xs"
    from sum_list_constant[OF this] n have "mean_of xs = hd xs"
      by (simp add: mean_of_def)
    with a show "\<forall>x\<in>set xs. x = mean_of xs" by simp
  qed
  finally show ?thesis by (simp add: is_constant_def list_all_iff)
qed

lemma std_of_scaled:
  assumes "xs \<noteq> []"
  shows "std_of (transform_column (fit_column xs) xs) = (if is_constant xs then 0 else 1)"
proof -
  let ?n = "real (length xs)"
  let ?V = "sum_list (map (\<lambda>x. (x - mean_of xs)\<^sup>2) xs)"
  let ?c = "col_scale (fit_column xs)"
  let ?ys = "transform_column (fit_column xs) xs"
  have n: "?n \<noteq> 0" using assms by simp
  have V: "0 \<le> ?V / ?n"
    by (intro divide_nonneg_nonneg sum_list_nonneg) auto
  have "sum_list (map (\<lambda>y. (y - mean_of ?ys)\<^sup>2) ?ys) = sum_list (map (\<lambda>y. y\<^sup>2) ?ys)"
    by (simp add: mean_of_scaled[OF assms])
  also have "\<dots> = sum_list (map (\<lambda>x. ((x - mean_of xs) / ?c)\<^sup>2) xs)"
    by (simp add: transform_column_def fit_column_def comp_def)
  also have "\<dots> = ?V / ?c\<^sup>2"
    by (rule sum_list_squares_scale)
  finally have s: "std_of ?ys = sqrt (?V / ?c\<^sup>2 / ?n)"
    by (simp add: std_of_def transform_column_def)
  show ?thesis
  proof (cases "std_of xs = 0")
    case True
    then have "?c = 1" by (simp add: fit_column_def)
    with s have "std_of ?ys = std_of xs" by (simp add: std_of_def)
    with True std_of_zero_iff[OF assms] show ?thesis by simp
  next
    case False
    then have c: "?c = sqrt (?V / ?n)" by (simp add: fit_column_def std_of_def)
    with V have c2: "?c\<^sup>2 = ?V / ?n" by simp
    from False have nz: "?V / ?n \<noteq> 0" by (simp add: std_of_def)
    have "?V / ?c\<^sup>2 / ?n = (?V / ?n) / ?c\<^sup>2"
      by (simp add: mult.commute)
    also have "\<dots> = (?V / ?n) / (?V / ?n)"
      by (simp only: c2)
    also have "\<dots> = 1"
      using nz by (rule divide_self)
    finally have "?V / ?c\<^sup>2 / ?n = 1" .
    with s have "std_of ?ys = 1" by (simp only: real_sqrt_one)
    with False std_of_zero_iff[OF assms] show ?thesis by simp
  qed
qed

lemma map2_same_nth:
  "j < length X \<Longrightarrow> map2 f (map g X) X ! j = f (g (X ! j)) (X ! j)"
  by simp

lemma no_samples_nth:
  assumes "\<not> no_samples X" and "j < length X"
  shows "X ! j \<noteq> []"
proof
  assume "X ! j = []"
  with assms(2) have "[] \<in> set X" by (metis nth_mem)
  with assms(1) show False by (auto simp: no_samples_def list_ex_iff)
qed

lemma cell_43_Inr:
  assumes "cell_43 x_train x_test = Inr (sc, train_scaled, test_scaled)"
  shows "\<not> no_samples x_train"
    and "sc = Some (map fit_column x_train)"
    and "train_scaled = map2 transform_column (map fit_column x_train) x_train"
    and "test_scaled = map2 transform_column (map fit_column x_train) x_test"
  using assms
  by (auto simp: cell_43_def fit_transform_def transform_def Let_def
      split: if_splits sum.splits prod.splits option.splits)

theorem unit_deviation_counterexample:
  "cell_43 [[2, 2]] [[5]] = Inr (Some [\<lparr>col_mean = 2, col_scale = 1\<rparr>], [[0, 0]], [[3]]) \<and>
   std_of [0, 0] = 0"
  by (simp add: cell_43_def fit_transform_def transform_def no_samples_def fit_column_def
      transform_column_def std_of_def mean_of_def)

text \<open>
  Claim C6, amended. When cell 43 completes, the parameters the scaler holds are the ones
  fit on the training features alone, whatever the test features are, and both scaled
  tables are computed with these same parameters: the test features are never fit on. In
  exact arithmetic every scaled training column has mean 0; its standard deviation is 1,
  except that a column that is constant in the training partition is scaled to zeros and
  has standard deviation 0.
\<close>

theorem scaler_fit_on_training_only:
  assumes "cell_43 x_train x_test = Inr (sc, train_scaled, test_scaled)"
  shows "sc = Some (map fit_column x_train) \<and>
         train_scaled = map2 transform_column (map fit_column x_train) x_train \<and>
         test_scaled = map2 transform_column (map fit_column x_train) x_test \<and>
         (\<forall>j<length x_train.
            mean_of (train_scaled ! j) = 0 \<and>
            std_of (train_scaled ! j) = (if is_constant (x_train ! j) then 0 else 1))"
proof -
  note c = cell_43_Inr[OF assms]
  have "mean_of (train_scaled ! j) = 0 \<and>
      std_of (train_scaled ! j) = (if is_constant (x_train ! j) then 0 else 1)"
    if j: "j < length x_train" for j
  proof -
    have ne: "x_train ! j \<noteq> []" using c(1) j by (rule no_samples_nth)
    have "train_scaled ! j = transform_column (fit_column (x_train ! j)) (x_train ! j)"
      unfolding c(3) using j by (rule map2_same_nth)
    with mean_of_scaled[OF ne] std_of_scaled[OF ne] show ?thesis by simp
  qed
  with c(2-4) show ?thesis by blast
qed

theorem scaler_fit_on_training_only_witness:
  "cell_43 [[1, 3], [2, 2]] [[2], [5]] =
     Inr (Some [\<lparr>col_mean = 2, col_scale = 1\<rparr>, \<lparr>col_mean = 2, col_scale = 1\<rparr>],
          [[- 1, 1], [0, 0]], [[0], [3]]) \<and>
   mean_of [- 1, 1] = 0 \<and> std_of [- 1, 1] = 1 \<and> mean_of [0, 0] = 0 \<and> std_of [0, 0] = 0"
proof -
  let ?train = "[[1, 3], [2, 2 :: real]]"
  have c: "cell_43 ?train [[2], [5]] =
     Inr (Some [\<lparr>col_mean = 2, col_scale = 1\<rparr>, \<lparr>col_mean = 2, col_scale = 1\<rparr>],
          [[- 1, 1], [0, 0]], [[0], [3]])"
    by (simp add: cell_43_def fit_transform_def transform_def no_samples_def fit_column_def
        transform_column_def std_of_def mean_of_def)
  from scaler_fit_on_training_only[OF c]
  have all: "\<forall>j<length ?train.
      mean_of ([[- 1, 1], [0, 0]] ! j) = 0 \<and>
      std_of ([[- 1, 1], [0, 0]] ! j) = (if is_constant (?train ! j) then 0 else 1)"
    by blast
  have k: "\<not> is_constant (?train ! 0)" "is_constant (?train ! 1)"
    by (simp_all add: is_constant_def)
  have l: "0 < length ?train" "1 < length ?train" by simp_all
  from all[rule_format, OF l(1)] k(1)
  have zero: "mean_of [- 1, 1] = 0 \<and> std_of [- 1, 1] = 1" by simp
  from all[rule_format, OF l(2)] k(2)
  have one: "mean_of [0, 0] = 0 \<and> std_of [0, 0] = 0" by simp
  from c zero one show ?thesis by blast
qed

end
